theory Spec2Isabelle
  imports Complex_Main "HOL-Library.List_Lexorder" "HOL-Library.Product_Lexorder"
    "HOL-Library.Sublist"
begin

section \<open>Text\<close>

text \<open>
  A Python \<open>str\<close> is a sequence of Unicode code points, so text is a list of code
  points.  \<open>lit\<close> writes ASCII text; the column names of the sheet are Thai and are
  given by their code points.
\<close>

type_synonym pystr = "nat list"

definition lit :: "string \<Rightarrow> pystr" where
  "lit s = map of_char s"

text \<open>The code points that \<open>str.isspace\<close> accepts; \<open>str.strip()\<close> removes them at both ends.\<close>

definition isspace :: "nat \<Rightarrow> bool" where
  "isspace c \<longleftrightarrow>
     c \<in> set [9, 10, 11, 12, 13, 28, 29, 30, 31, 32, 133, 160, 5760,
               8232, 8233, 8239, 8287, 12288] \<or> (8192 \<le> c \<and> c \<le> 8202)"

definition strip :: "pystr \<Rightarrow> pystr" where
  "strip s = rev (dropWhile isspace (rev (dropWhile isspace s)))"

text \<open>Decimal text of an integer, as \<open>str\<close> gives it.\<close>

fun nat_str :: "nat \<Rightarrow> pystr" where
  "nat_str n = (if n < 10 then [48 + n] else nat_str (n div 10) @ [48 + n mod 10])"

declare nat_str.simps [simp del]

definition int_str :: "int \<Rightarrow> pystr" where
  "int_str i = (if i < 0 then 45 # nat_str (nat (- i)) else nat_str (nat i))"

section \<open>Column names and constants of app.py\<close>

definition IMPORT :: pystr where
  "IMPORT = [3609, 3635, 3648, 3586, 3657, 3634]"

definition EXPORT :: pystr where
  "EXPORT = [3626, 3656, 3591, 3629, 3629, 3585]"

definition YEAR :: pystr where
  "YEAR = [3611, 3637, 32, 3614, 46, 3624, 46]"

definition COUNTRY :: pystr where
  "COUNTRY = [3594, 3639, 3656, 3629, 3611, 3619, 3632, 3648, 3607, 3624]"

definition HS_CODE :: pystr where
  "HS_CODE = [3614, 3636, 3585, 3633, 3604, 3624, 3640, 3621, 3585, 3634, 3585, 3619]"

definition ITEM :: pystr where
  "ITEM = [3619, 3634, 3618, 3585, 3634, 3619, 3626, 3636, 3609, 3588, 3657, 3634]"

definition BALANCE :: pystr where
  "BALANCE = [3604, 3640, 3621, 3585, 3634, 3619, 3588, 3657, 3634]"

definition numeric_cols :: "pystr list" where
  "numeric_cols = [IMPORT, EXPORT, YEAR]"

section \<open>Exceptions\<close>

text \<open>
  The exception classes that the handlers of app.py tell apart, and the ones the data
  library raises on the paths below.  \<open>OtherError\<close> is any further class derived from
  \<open>Exception\<close> (named by its class name); \<open>NonException\<close> is a \<open>BaseException\<close>
  outside \<open>Exception\<close> (\<open>KeyboardInterrupt\<close>, \<open>SystemExit\<close>), which
  \<open>except Exception\<close> does not catch.
\<close>

datatype exn =
    SpreadsheetNotFound
  | FileNotFoundError
  | KeyError pystr
  | IndexError
  | ValueError
  | TypeError
  | AttributeError
  | OtherError pystr
  | NonException pystr

fun is_Exception :: "exn \<Rightarrow> bool" where
  "is_Exception (NonException _) = False"
| "is_Exception _ = True"

section \<open>Tables\<close>

text \<open>
  A cell of a DataFrame: text (dtype object), or a number of an integer or a floating
  column.  Numbers are exact: every finite \<open>int64\<close> and \<open>float64\<close> value is a
  rational, and the rounding and overflow of machine arithmetic are not part of this model.
\<close>

datatype cell = Text pystr | I64 int | F64 rat

record dataframe =
  columns :: "pystr list"
  rows :: "cell list list"

text \<open>\<open>pd.DataFrame()\<close>: no rows, no columns.\<close>

definition DataFrame0 :: dataframe where
  "DataFrame0 = \<lparr>columns = [], rows = []\<rparr>"

text \<open>\<open>df.empty\<close>: some axis has length 0.\<close>

definition df_empty :: "dataframe \<Rightarrow> bool" where
  "df_empty df \<longleftrightarrow> columns df = [] \<or> rows df = []"

text \<open>\<open>df[c]\<close>: a KeyError when no column is named \<open>c\<close>, a Series when one is, a
  DataFrame when several are.\<close>

datatype selection = Missing | Series "cell list" | Frame

definition col_positions :: "dataframe \<Rightarrow> pystr \<Rightarrow> nat list" where
  "col_positions df c = filter (\<lambda>j. columns df ! j = c) [0..<length (columns df)]"

definition getitem :: "dataframe \<Rightarrow> pystr \<Rightarrow> selection" where
  "getitem df c =
     (case col_positions df c of
        [] \<Rightarrow> Missing
      | [j] \<Rightarrow> Series (map (\<lambda>r. r ! j) (rows df))
      | _ \<Rightarrow> Frame)"

text \<open>\<open>df[mask]\<close>: the rows whose mask entry is true, in their order.\<close>

definition boolean_index :: "dataframe \<Rightarrow> bool list \<Rightarrow> dataframe" where
  "boolean_index df msk = df\<lparr>rows := map fst (filter snd (zip (rows df) msk))\<rparr>"

section \<open>Library behaviour taken as a parameter\<close>

text \<open>
  What the data library and the regular-expression engine compute, where this development
  does not interpret it itself:
  \<^item> \<open>to_number\<close>: the number \<open>pd.to_numeric\<close> reads from one cell text, \<open>None\<close>
    where it reads none (the cell becomes NaN under \<open>errors='coerce'\<close>);
  \<^item> \<open>float_str\<close>: the text \<open>astype(str)\<close> gives a floating value;
  \<^item> \<open>ieq t p\<close>: whether the engine, under \<open>IGNORECASE\<close>, lets the text character
    \<open>t\<close> match the pattern character \<open>p\<close>;
  \<^item> \<open>re_other\<close>: compiling a pattern that uses syntax other than plain characters
    and \<open>.\<close>: \<open>re.error\<close>, or the search function of the compiled pattern.
\<close>

datatype number = IntNum int | FloatNum rat

record lib =
  to_number :: "pystr \<Rightarrow> number option"
  float_str :: "rat \<Rightarrow> pystr"
  ieq :: "nat \<Rightarrow> nat \<Rightarrow> bool"
  re_other :: "pystr \<Rightarrow> exn + (pystr \<Rightarrow> bool)"

section \<open>Series.str.contains(pat, case=False, na=False)\<close>

text \<open>
  \<open>regex=True\<close> is the default of \<open>str.contains\<close>, and app.py does not change it: the
  pattern is compiled with \<open>re.compile(pat, re.IGNORECASE)\<close> and each text is searched.
  Patterns of plain characters and \<open>.\<close> are interpreted here; \<open>.\<close> matches any
  character but a newline.
\<close>

definition re_special :: "nat \<Rightarrow> bool" where
  "re_special c \<longleftrightarrow> c \<in> set [46, 94, 36, 42, 43, 63, 123, 125, 91, 93, 92, 124, 40, 41]"

datatype atom = AnyChar | Lit nat

definition atoms :: "pystr \<Rightarrow> atom list" where
  "atoms p = map (\<lambda>c. if c = 46 then AnyChar else Lit c) p"

definition in_fragment :: "pystr \<Rightarrow> bool" where
  "in_fragment p \<longleftrightarrow> list_all (\<lambda>c. c = 46 \<or> \<not> re_special c) p"

fun atom_match :: "lib \<Rightarrow> atom \<Rightarrow> nat \<Rightarrow> bool" where
  "atom_match L AnyChar t = (t \<noteq> 10)"
| "atom_match L (Lit p) t = ieq L t p"

fun match_here :: "lib \<Rightarrow> atom list \<Rightarrow> pystr \<Rightarrow> bool" where
  "match_here L [] s = True"
| "match_here L (a # as) [] = False"
| "match_here L (a # as) (t # ts) = (atom_match L a t \<and> match_here L as ts)"

fun search :: "lib \<Rightarrow> atom list \<Rightarrow> pystr \<Rightarrow> bool" where
  "search L as [] = match_here L as []"
| "search L as (t # ts) = (match_here L as (t # ts) \<or> search L as ts)"

definition re_compile :: "lib \<Rightarrow> pystr \<Rightarrow> exn + (pystr \<Rightarrow> bool)" where
  "re_compile L p = (if in_fragment p then Inr (search L (atoms p)) else re_other L p)"

fun astype_str :: "lib \<Rightarrow> cell \<Rightarrow> pystr" where
  "astype_str L (Text s) = s"
| "astype_str L (I64 i) = int_str i"
| "astype_str L (F64 q) = float_str L q"

definition str_contains :: "lib \<Rightarrow> pystr list \<Rightarrow> pystr \<Rightarrow> exn + bool list" where
  "str_contains L texts pat =
     (case re_compile L pat of Inl e \<Rightarrow> Inl e | Inr f \<Rightarrow> Inr (map f texts))"

section \<open>The filter stage (app.py, lines 111 to 121)\<close>

text \<open>
  DataFrames are objects: \<open>df.copy()\<close> and \<open>df[mask]\<close> each build a new object, and a
  name is bound to a reference.  The store is the list of the objects built so far; a
  reference is a position in it.
\<close>

type_synonym ref = nat
type_synonym store = "dataframe list"

definition new_object :: "dataframe \<Rightarrow> store \<Rightarrow> ref \<times> store" where
  "new_object d s = (length s, s @ [d])"

definition copy :: "ref \<Rightarrow> store \<Rightarrow> ref \<times> store" where
  "copy r s = new_object (s ! r) s"

text \<open>
  One filter line:
  \<^verbatim>\<open>if sel: filtered_df = filtered_df[filtered_df[col].astype(str).str.contains(sel.strip(), case=False, na=False)]\<close>
\<close>

definition filter_by :: "lib \<Rightarrow> pystr \<Rightarrow> pystr \<Rightarrow> ref \<times> store \<Rightarrow> exn + ref \<times> store" where
  "filter_by L col sel rs =
     (case rs of (r, s) \<Rightarrow>
        if sel = [] then Inr (r, s)
        else (case getitem (s ! r) col of
                Missing \<Rightarrow> Inl (KeyError col)
              | Frame \<Rightarrow> Inl AttributeError
              | Series xs \<Rightarrow>
                  (case str_contains L (map (astype_str L) xs) (strip sel) of
                     Inl e \<Rightarrow> Inl e
                   | Inr msk \<Rightarrow> Inr (new_object (boolean_index (s ! r) msk) s))))"

record criteria =
  selected_country :: pystr
  selected_hs_code :: pystr
  selected_item :: pystr
  selected_year :: pystr

definition then_do :: "exn + 'a \<Rightarrow> ('a \<Rightarrow> exn + 'b) \<Rightarrow> exn + 'b" where
  "then_do m f = (case m of Inl e \<Rightarrow> Inl e | Inr x \<Rightarrow> f x)"

definition filtered_df :: "lib \<Rightarrow> criteria \<Rightarrow> ref \<Rightarrow> store \<Rightarrow> exn + ref \<times> store" where
  "filtered_df L c df s =
     then_do (filter_by L COUNTRY (selected_country c) (copy df s)) (\<lambda>rs1.
     then_do (filter_by L HS_CODE (selected_hs_code c) rs1) (\<lambda>rs2.
     then_do (filter_by L ITEM (selected_item c) rs2) (\<lambda>rs3.
     filter_by L YEAR (selected_year c) rs3)))"

text \<open>
  What section 4.2 of the specification says of the filter, in its words: a record stays
  when, for every criterion that is not empty after trimming, the text of its target
  column contains the trimmed pattern, case-insensitively; a record whose target column
  is absent is excluded.
\<close>

definition contains_ci :: "lib \<Rightarrow> pystr \<Rightarrow> pystr \<Rightarrow> bool" where
  "contains_ci L text pat \<longleftrightarrow>
     list_ex (\<lambda>i. length pat \<le> length text - i \<and>
                   list_all2 (ieq L) (take (length pat) (drop i text)) pat)
       [0..<Suc (length text)]"

definition criterion_ok :: "lib \<Rightarrow> dataframe \<Rightarrow> pystr \<Rightarrow> pystr \<Rightarrow> cell list \<Rightarrow> bool" where
  "criterion_ok L df col sel r \<longleftrightarrow>
     strip sel = [] \<or>
     (case col_positions df col of
        [j] \<Rightarrow> contains_ci L (astype_str L (r ! j)) (strip sel)
      | _ \<Rightarrow> False)"

definition filter_spec :: "lib \<Rightarrow> criteria \<Rightarrow> dataframe \<Rightarrow> dataframe" where
  "filter_spec L c df =
     df\<lparr>rows := filter (\<lambda>r. criterion_ok L df COUNTRY (selected_country c) r \<and>
                          criterion_ok L df HS_CODE (selected_hs_code c) r \<and>
                          criterion_ok L df ITEM (selected_item c) r \<and>
                          criterion_ok L df YEAR (selected_year c) r) (rows df)\<rparr>"

text \<open>A pattern without any character that the regular-expression syntax reserves.\<close>

definition plain :: "pystr \<Rightarrow> bool" where
  "plain p \<longleftrightarrow> list_all (\<lambda>c. \<not> re_special c) p"

text \<open>A criterion is usable on a table when it is empty, or its trimmed pattern is plain
  and exactly one column of the table has the target name.\<close>

definition usable :: "dataframe \<Rightarrow> pystr \<Rightarrow> pystr \<Rightarrow> bool" where
  "usable df col sel \<longleftrightarrow>
     sel = [] \<or> (plain (strip sel) \<and> length (col_positions df col) = 1)"

section \<open>What the page shows\<close>

text \<open>
  app.py uses the names \<open>go\<close> and \<open>px\<close> of the plotting library, which are taken to be
  \<open>plotly.graph_objects\<close> and \<open>plotly.express\<close>.  A figure is represented by the data it
  is built from: \<open>Figure0\<close> is \<open>go.Figure()\<close>, \<open>Go_bars x y1 y2\<close> the two bar traces
  of \<open>create_trade_chart\<close>, \<open>Px_bar frame x y\<close> is \<open>px.bar(frame, x=x, y=y)\<close>.
  The messages are the texts of app.py, one constructor for each.
\<close>

datatype figure =
    Figure0
  | Go_bars "cell list" "cell list" "cell list"
  | Px_bar dataframe pystr pystr
  | Px_line dataframe pystr "pystr list"

datatype msg =
    Debug_found_secret
  | Debug_client_created
  | Debug_client_failed exn
  | Debug_fallback
  | Load_success
  | Sheet_not_found
  | Check_ids
  | Key_file_missing
  | Upload_key_file
  | Fetch_failed exn
  | Check_access
  | Column_not_found pystr
  | No_matching_rows
  | No_year_column
  | Cannot_load

datatype ui =
    St_write msg
  | St_error msg
  | St_info msg
  | St_success msg
  | St_warning msg
  | St_dataframe dataframe
  | St_plotly_chart figure

section \<open>The aggregation stage (app.py, lines 133 to 168)\<close>

text \<open>
  \<open>groupby\<close> sorts the group keys: numbers by value, text by code points.  A column
  holds either numbers or text, so the order between the two kinds is never used.
\<close>

fun cell_key :: "cell \<Rightarrow> nat \<times> rat \<times> pystr" where
  "cell_key (I64 i) = (0, of_int i, [])"
| "cell_key (F64 q) = (0, q, [])"
| "cell_key (Text s) = (1, 0, s)"

definition group_keys :: "cell list \<Rightarrow> cell list" where
  "group_keys ks = sort_key cell_key (remdups ks)"

text \<open>
  Sums and differences of numeric cells: integer columns stay integer, any other numeric
  column is floating.
\<close>

fun is_text :: "cell \<Rightarrow> bool" where
  "is_text (Text _) = True"
| "is_text _ = False"

fun is_int :: "cell \<Rightarrow> bool" where
  "is_int (I64 _) = True"
| "is_int _ = False"

fun int_of :: "cell \<Rightarrow> int" where
  "int_of (I64 i) = i"
| "int_of _ = 0"

fun val :: "cell \<Rightarrow> rat" where
  "val (I64 i) = of_int i"
| "val (F64 q) = q"
| "val (Text _) = 0"

definition sum_cells :: "cell list \<Rightarrow> cell" where
  "sum_cells cs =
     (if list_all is_int cs then I64 (sum_list (map int_of cs))
      else F64 (sum_list (map val cs)))"

definition cell_sub :: "cell \<Rightarrow> cell \<Rightarrow> cell" where
  "cell_sub a b =
     (if is_int a \<and> is_int b then I64 (int_of a - int_of b) else F64 (val a - val b))"

text \<open>
  \<open>df.groupby(g)[ms].sum().reset_index()\<close>.  The group column must occur once (a
  missing one is a KeyError, a repeated one a ValueError); each selected column must occur
  (KeyError).  A metric column of text does not arise from the loader, which
  converts these columns whenever they are present; the ranking helpers reject it
  (TypeError).  \<open>reset_index\<close> cannot insert a group column that is also selected
  (ValueError).
\<close>

fun positions_all :: "dataframe \<Rightarrow> pystr list \<Rightarrow> exn + nat list" where
  "positions_all df [] = Inr []"
| "positions_all df (m # ms) =
     (case col_positions df m of
        [] \<Rightarrow> Inl (KeyError m)
      | [j] \<Rightarrow> (case positions_all df ms of Inl e \<Rightarrow> Inl e | Inr js \<Rightarrow> Inr (j # js))
      | _ \<Rightarrow> Inl TypeError)"

text \<open>The sum of column \<open>mj\<close> over the records whose column \<open>gj\<close> holds the key \<open>k\<close>.\<close>

definition group_total :: "dataframe \<Rightarrow> nat \<Rightarrow> nat \<Rightarrow> cell \<Rightarrow> cell" where
  "group_total df gj mj k =
     sum_cells (map (\<lambda>r. r ! mj) (filter (\<lambda>r. r ! gj = k) (rows df)))"

definition groupby_sum :: "dataframe \<Rightarrow> pystr \<Rightarrow> pystr list \<Rightarrow> exn + dataframe" where
  "groupby_sum df g ms =
     (case col_positions df g of
        [] \<Rightarrow> Inl (KeyError g)
      | [gj] \<Rightarrow>
          (case positions_all df ms of
             Inl e \<Rightarrow> Inl e
           | Inr js \<Rightarrow>
               if list_ex (\<lambda>r. list_ex (\<lambda>j. is_text (r ! j)) js) (rows df) then Inl TypeError
               else if g \<in> set ms then Inl ValueError
               else Inr \<lparr>columns = g # ms,
                         rows = map (\<lambda>k. k # map (\<lambda>j. group_total df gj j k) js)
                                  (group_keys (map (\<lambda>r. r ! gj) (rows df)))\<rparr>)
      | _ \<Rightarrow> Inl ValueError)"

text \<open>
  \<open>Series.nlargest(n)\<close> (keep='first'): the positions of the \<open>n\<close> largest values,
  largest first, the earlier position first among equal values.  \<open>df.loc[index]\<close>
  takes the rows at these positions, in this order.
\<close>

definition nlargest :: "nat \<Rightarrow> rat list \<Rightarrow> nat list" where
  "nlargest n vs = take n (sort_key (\<lambda>i. - (vs ! i)) [0..<length vs])"

definition loc :: "dataframe \<Rightarrow> nat list \<Rightarrow> dataframe" where
  "loc df idx = df\<lparr>rows := map (\<lambda>i. rows df ! i) idx\<rparr>"

text \<open>\<open>df[c] = values\<close>: a new last column, or the replacement of the columns named \<open>c\<close>.\<close>

definition setitem :: "dataframe \<Rightarrow> pystr \<Rightarrow> cell list \<Rightarrow> dataframe" where
  "setitem df c vs =
     (case col_positions df c of
        [] \<Rightarrow> \<lparr>columns = columns df @ [c], rows = map2 (\<lambda>r v. r @ [v]) (rows df) vs\<rparr>
      | js \<Rightarrow> df\<lparr>rows := map2 (\<lambda>r v. fold (\<lambda>j r'. r'[j := v]) js r) (rows df) vs\<rparr>)"

definition create_trade_chart :: "dataframe \<Rightarrow> pystr \<Rightarrow> exn + figure" where
  "create_trade_chart df_data group_col =
     (case groupby_sum df_data group_col [IMPORT, EXPORT] of
        Inl e \<Rightarrow> Inl e
      | Inr summary_df \<Rightarrow>
          (case (getitem summary_df group_col, getitem summary_df IMPORT,
                 getitem summary_df EXPORT) of
             (Series x, Series y_import, Series y_export) \<Rightarrow> Inr (Go_bars x y_import y_export)
           | _ \<Rightarrow> Inl TypeError))"

definition create_top_n_chart ::
  "dataframe \<Rightarrow> pystr \<Rightarrow> pystr \<Rightarrow> nat \<Rightarrow> ui list \<times> (exn + figure)" where
  "create_top_n_chart df_data col_name value_col top_n =
     (if col_name \<notin> set (columns df_data)
      then ([St_warning (Column_not_found col_name)], Inr Figure0)
      else case groupby_sum df_data col_name [value_col] of
             Inl e \<Rightarrow> ([], Inl e)
           | Inr summary \<Rightarrow>
               (case getitem summary value_col of
                  Series vs \<Rightarrow>
                    ([], Inr (Px_bar (loc summary (nlargest top_n (map val vs))) col_name value_col))
                | _ \<Rightarrow> ([], Inl TypeError)))"

definition create_balance_chart ::
  "dataframe \<Rightarrow> pystr \<Rightarrow> nat \<Rightarrow> ui list \<times> (exn + figure)" where
  "create_balance_chart df_data group_col top_n =
     (if group_col \<notin> set (columns df_data)
      then ([St_warning (Column_not_found group_col)], Inr Figure0)
      else case groupby_sum df_data group_col [IMPORT, EXPORT] of
             Inl e \<Rightarrow> ([], Inl e)
           | Inr summary_df \<Rightarrow>
               (case (getitem summary_df EXPORT, getitem summary_df IMPORT) of
                  (Series ex, Series im) \<Rightarrow>
                    let with_balance = setitem summary_df BALANCE (map2 cell_sub ex im)
                    in (case getitem with_balance BALANCE of
                          Series bal \<Rightarrow>
                            ([], Inr (Px_bar (loc with_balance
                                               (nlargest top_n (map (\<lambda>c. \<bar>val c\<bar>) bal)))
                                             group_col BALANCE))
                        | _ \<Rightarrow> ([], Inl TypeError))
                | _ \<Rightarrow> ([], Inl TypeError)))"

text \<open>Column \<open>j\<close> of the table holds numbers in every record.\<close>

definition numeric_at :: "dataframe \<Rightarrow> nat \<Rightarrow> bool" where
  "numeric_at df j \<longleftrightarrow> list_all (\<lambda>r. \<not> is_text (r ! j)) (rows df)"

section \<open>The data loader (app.py, lines 30 to 86)\<close>

text \<open>
  What the calls to the secrets store, the credential libraries and the sheet client do in
  one run: each raises an exception or returns.  Clients, credentials and sheet handles
  are opaque, so a call that returns one returns \<open>()\<close> here.
\<close>

record env =
  secrets_get :: "exn + bool"
  service_account :: "exn + unit"
  import_oauth2client :: "exn + unit"
  from_json_keyfile_name :: "exn + unit"
  authorize :: "exn + unit"
  open_by_id :: "exn + unit"
  worksheet :: "exn + unit"
  get_all_values :: "exn + pystr list list"

text \<open>
  \<open>pd.DataFrame(data[1:], columns=data[0])\<close> on rows of text.  The sheet client returns
  rows of one width (it pads short rows with empty text); the constructor rejects rows
  whose width is not the number of column names.
\<close>

definition DataFrame :: "pystr list list \<Rightarrow> pystr list \<Rightarrow> exn + dataframe" where
  "DataFrame body header =
     (if list_all (\<lambda>r. length r = length header) body
      then Inr \<lparr>columns = header, rows = map (map Text) body\<rparr>
      else Inl ValueError)"

text \<open>
  \<open>pd.to_numeric(series, errors='coerce').fillna(0)\<close>.  Each text is read as a number;
  a text that is not read becomes NaN and then 0.  The result is an integer column when
  every cell was read as an integer, and a floating column otherwise.
\<close>

fun read_cell :: "lib \<Rightarrow> cell \<Rightarrow> number option" where
  "read_cell L (Text s) = to_number L s"
| "read_cell L (I64 i) = Some (IntNum i)"
| "read_cell L (F64 q) = Some (FloatNum q)"

fun is_int_read :: "number option \<Rightarrow> bool" where
  "is_int_read (Some (IntNum _)) = True"
| "is_int_read _ = False"

fun int_cell :: "number option \<Rightarrow> cell" where
  "int_cell (Some (IntNum i)) = I64 i"
| "int_cell _ = I64 0"

fun float_cell :: "number option \<Rightarrow> cell" where
  "float_cell None = F64 0"
| "float_cell (Some (IntNum i)) = F64 (of_int i)"
| "float_cell (Some (FloatNum q)) = F64 q"

definition to_numeric_fillna :: "lib \<Rightarrow> cell list \<Rightarrow> cell list" where
  "to_numeric_fillna L xs =
     (let reads = map (read_cell L) xs
      in if list_all is_int_read reads then map int_cell reads else map float_cell reads)"

text \<open>The loop of lines 66 to 71.  On a repeated column name \<open>df[col]\<close> is a
  DataFrame, which \<open>pd.to_numeric\<close> rejects.\<close>

fun coerce_cols :: "lib \<Rightarrow> pystr list \<Rightarrow> dataframe \<Rightarrow> exn + dataframe" where
  "coerce_cols L [] df = Inr df"
| "coerce_cols L (col # cols) df =
     (if col \<in> set (columns df)
      then (case getitem df col of
              Series xs \<Rightarrow> coerce_cols L cols (setitem df col (to_numeric_fillna L xs))
            | Frame \<Rightarrow> Inl TypeError
            | Missing \<Rightarrow> Inl (KeyError col))
      else coerce_cols L cols df)"

text \<open>Lines 63 to 71: \<open>data[0]\<close> on an empty list is an IndexError.\<close>

definition load_frame :: "lib \<Rightarrow> pystr list list \<Rightarrow> exn + dataframe" where
  "load_frame L data =
     (case data of
        [] \<Rightarrow> Inl IndexError
      | header # body \<Rightarrow> then_do (DataFrame body header) (coerce_cols L numeric_cols))"

text \<open>Lines 56 to 74, after a client has been made; \<open>seen\<close> is what was shown so far.\<close>

definition fetch :: "lib \<Rightarrow> env \<Rightarrow> ui list \<Rightarrow> ui list \<times> (exn + dataframe)" where
  "fetch L env seen =
     (case open_by_id env of
        Inl e \<Rightarrow> (seen, Inl e)
      | Inr _ \<Rightarrow>
     (case worksheet env of
        Inl e \<Rightarrow> (seen, Inl e)
      | Inr _ \<Rightarrow>
     (case get_all_values env of
        Inl e \<Rightarrow> (seen, Inl e)
      | Inr data \<Rightarrow>
     (case load_frame L data of
        Inl e \<Rightarrow> (seen, Inl e)
      | Inr df \<Rightarrow> (seen @ [St_success Load_success], Inr df)))))"

text \<open>
  The body of the \<open>try\<close> (lines 34 to 74): what was shown, and the exception raised or
  the table returned.  The inner handler of line 44 returns the empty table.
\<close>

definition try_body :: "lib \<Rightarrow> env \<Rightarrow> ui list \<times> (exn + dataframe)" where
  "try_body L env =
     (case secrets_get env of
        Inl e \<Rightarrow> ([], Inl e)
      | Inr found \<Rightarrow>
          if found then
            (case service_account env of
               Inl e_gspread \<Rightarrow>
                 if is_Exception e_gspread
                 then ([St_write Debug_found_secret, St_error (Debug_client_failed e_gspread)],
                       Inr DataFrame0)
                 else ([St_write Debug_found_secret], Inl e_gspread)
             | Inr _ \<Rightarrow> fetch L env [St_write Debug_found_secret, St_write Debug_client_created])
          else
            (case import_oauth2client env of
               Inl e \<Rightarrow> ([St_write Debug_fallback], Inl e)
             | Inr _ \<Rightarrow>
            (case from_json_keyfile_name env of
               Inl e \<Rightarrow> ([St_write Debug_fallback], Inl e)
             | Inr _ \<Rightarrow>
            (case authorize env of
               Inl e \<Rightarrow> ([St_write Debug_fallback], Inl e)
             | Inr _ \<Rightarrow> fetch L env [St_write Debug_fallback]))))"

text \<open>The three handlers of lines 75 to 86, in their order.\<close>

definition handler :: "exn \<Rightarrow> ui list \<times> (exn + dataframe)" where
  "handler e =
     (if e = SpreadsheetNotFound
      then ([St_error Sheet_not_found, St_info Check_ids], Inr DataFrame0)
      else if e = FileNotFoundError
      then ([St_error Key_file_missing, St_info Upload_key_file], Inr DataFrame0)
      else if is_Exception e
      then ([St_error (Fetch_failed e), St_info Check_access], Inr DataFrame0)
      else ([], Inl e))"

definition get_data_from_sheet :: "lib \<Rightarrow> env \<Rightarrow> ui list \<times> (exn + dataframe)" where
  "get_data_from_sheet L env =
     (case try_body L env of
        (seen, Inl e) \<Rightarrow> (case handler e of (shown, r) \<Rightarrow> (seen @ shown, r))
      | (seen, Inr df) \<Rightarrow> (seen, Inr df))"

section \<open>The cache of the loader (line 30)\<close>

text \<open>
  \<open>@st.cache_data(ttl=300)\<close>: the value a call returns is kept with the time of the call
  and what the call showed; a later call before that time plus 300 seconds returns the kept
  value and shows the same again, without running the function.  A call that raises keeps
  nothing.  Times are readings of the clock, in seconds.
\<close>

definition ttl :: real where
  "ttl = 300"

type_synonym cache = "(real \<times> ui list \<times> dataframe) option"

definition run_and_keep ::
  "lib \<Rightarrow> env \<Rightarrow> real \<Rightarrow> cache \<Rightarrow> (ui list \<times> (exn + dataframe)) \<times> cache" where
  "run_and_keep L env now c =
     (case get_data_from_sheet L env of
        (seen, Inl e) \<Rightarrow> ((seen, Inl e), c)
      | (seen, Inr df) \<Rightarrow> ((seen, Inr df), Some (now, seen, df)))"

definition cached_get_data ::
  "lib \<Rightarrow> env \<Rightarrow> real \<Rightarrow> cache \<Rightarrow> (ui list \<times> (exn + dataframe)) \<times> cache" where
  "cached_get_data L env now c =
     (case c of
        None \<Rightarrow> run_and_keep L env now c
      | Some (t, seen, df) \<Rightarrow>
          if now < t + ttl then ((seen, Inr df), c) else run_and_keep L env now c)"

text \<open>Successive calls, each with the state of the outside world and the time of the call.\<close>

fun calls ::
  "lib \<Rightarrow> (env \<times> real) list \<Rightarrow> cache \<Rightarrow> (ui list \<times> (exn + dataframe)) list \<times> cache" where
  "calls L [] c = ([], c)"
| "calls L ((env, now) # rest) c =
     (case cached_get_data L env now c of
        (out, c') \<Rightarrow> (case calls L rest c' of (outs, c'') \<Rightarrow> (out # outs, c'')))"

section \<open>The page (app.py, lines 93 to 224)\<close>

text \<open>
  One run of the script from line 93 on: the cached loader, the filter, the table and the
  charts of the chosen analysis.  The widgets that only lay the page out are left out;
  the choices of the user are the analysis and the four filter texts.
\<close>

datatype analysis = Overview | Item_analysis | Partner_analysis | Hs_code_analysis

definition and_then ::
  "ui list \<times> (exn + 'a) \<Rightarrow> ('a \<Rightarrow> ui list \<times> (exn + 'b)) \<Rightarrow> ui list \<times> (exn + 'b)" where
  "and_then m f =
     (case m of
        (seen, Inl e) \<Rightarrow> (seen, Inl e)
      | (seen, Inr x) \<Rightarrow> (case f x of (shown, r) \<Rightarrow> (seen @ shown, r)))"

definition plotly_chart :: "ui list \<times> (exn + figure) \<Rightarrow> ui list \<times> (exn + unit)" where
  "plotly_chart m = and_then m (\<lambda>fig. ([St_plotly_chart fig], Inr ()))"

text \<open>\<open>df.sort_values(by=c)\<close>, for a column that occurs once.\<close>

definition sort_values :: "dataframe \<Rightarrow> pystr \<Rightarrow> exn + dataframe" where
  "sort_values df c =
     (case col_positions df c of
        [] \<Rightarrow> Inl (KeyError c)
      | [j] \<Rightarrow> Inr (df\<lparr>rows := sort_key (\<lambda>r. cell_key (r ! j)) (rows df)\<rparr>)
      | _ \<Rightarrow> Inl ValueError)"

definition yearly_trend :: "dataframe \<Rightarrow> ui list \<times> (exn + unit)" where
  "yearly_trend fdf =
     (if YEAR \<in> set (columns fdf)
      then (case then_do (groupby_sum fdf YEAR [IMPORT, EXPORT]) (\<lambda>s. sort_values s YEAR) of
              Inl e \<Rightarrow> ([], Inl e)
            | Inr yearly_summary \<Rightarrow>
                ([St_plotly_chart (Px_line yearly_summary YEAR [IMPORT, EXPORT])], Inr ()))
      else ([St_warning No_year_column], Inr ()))"

definition ranking_charts :: "dataframe \<Rightarrow> pystr \<Rightarrow> ui list \<times> (exn + unit)" where
  "ranking_charts fdf col =
     and_then (plotly_chart (create_top_n_chart fdf col IMPORT 10)) (\<lambda>_.
     and_then (plotly_chart (create_top_n_chart fdf col EXPORT 10)) (\<lambda>_.
     plotly_chart (create_balance_chart fdf col 10)))"

fun charts :: "analysis \<Rightarrow> dataframe \<Rightarrow> ui list \<times> (exn + unit)" where
  "charts Overview fdf =
     and_then (plotly_chart (create_top_n_chart fdf COUNTRY IMPORT 10)) (\<lambda>_.
     and_then (plotly_chart (create_top_n_chart fdf COUNTRY EXPORT 10)) (\<lambda>_.
     yearly_trend fdf))"
| "charts Item_analysis fdf = ranking_charts fdf ITEM"
| "charts Partner_analysis fdf = ranking_charts fdf COUNTRY"
| "charts Hs_code_analysis fdf = ranking_charts fdf HS_CODE"

definition page_body :: "lib \<Rightarrow> dataframe \<Rightarrow> analysis \<Rightarrow> criteria \<Rightarrow> ui list \<times> (exn + unit)" where
  "page_body L df a c =
     (if \<not> df_empty df
      then (case filtered_df L c 0 [df] of
              Inl e \<Rightarrow> ([], Inl e)
            | Inr (r, s) \<Rightarrow>
                and_then ([St_dataframe (s ! r)], Inr ()) (\<lambda>_.
                  if df_empty (s ! r) then ([St_warning No_matching_rows], Inr ())
                  else charts a (s ! r)))
      else ([St_info Cannot_load], Inr ()))"

definition page ::
  "lib \<Rightarrow> env \<Rightarrow> real \<Rightarrow> cache \<Rightarrow> analysis \<Rightarrow> criteria \<Rightarrow> (ui list \<times> (exn + unit)) \<times> cache" where
  "page L env now c a crit =
     (case cached_get_data L env now c of
        (m, c') \<Rightarrow> (and_then m (\<lambda>df. page_body L df a crit), c'))"

text \<open>
  The reading of a failure of the loader.  \<open>only_errors\<close>: whatever the outside calls
  raise is derived from \<open>Exception\<close>.  \<open>source_ok\<close>: every outside call on the path
  taken returns.  \<open>load_ok\<close>: moreover the table is built from the rows.
\<close>

fun no_base_exception :: "exn + 'a \<Rightarrow> bool" where
  "no_base_exception (Inl e) = is_Exception e"
| "no_base_exception (Inr _) = True"

definition only_errors :: "env \<Rightarrow> bool" where
  "only_errors env \<longleftrightarrow>
     no_base_exception (secrets_get env) \<and> no_base_exception (service_account env) \<and>
     no_base_exception (import_oauth2client env) \<and>
     no_base_exception (from_json_keyfile_name env) \<and> no_base_exception (authorize env) \<and>
     no_base_exception (open_by_id env) \<and> no_base_exception (worksheet env) \<and>
     no_base_exception (get_all_values env)"

definition client_ok :: "env \<Rightarrow> bool" where
  "client_ok env \<longleftrightarrow>
     (case secrets_get env of
        Inl _ \<Rightarrow> False
      | Inr found \<Rightarrow>
          if found then \<not> isl (service_account env)
          else \<not> isl (import_oauth2client env) \<and> \<not> isl (from_json_keyfile_name env) \<and>
               \<not> isl (authorize env))"

definition source_ok :: "env \<Rightarrow> bool" where
  "source_ok env \<longleftrightarrow>
     client_ok env \<and> \<not> isl (open_by_id env) \<and> \<not> isl (worksheet env) \<and>
     \<not> isl (get_all_values env)"

definition load_ok :: "lib \<Rightarrow> env \<Rightarrow> bool" where
  "load_ok L env \<longleftrightarrow>
     source_ok env \<and>
     (case get_all_values env of Inl _ \<Rightarrow> False | Inr data \<Rightarrow> \<not> isl (load_frame L data))"

definition shows_error :: "ui list \<Rightarrow> bool" where
  "shows_error seen \<longleftrightarrow> list_ex (\<lambda>u. case u of St_error _ \<Rightarrow> True | _ \<Rightarrow> False) seen"





text \<open>The cache holds nothing for a call at time \<open>now\<close>, or what it holds is too old.\<close>

definition is_miss :: "cache \<Rightarrow> real \<Rightarrow> bool" where
  "is_miss c now \<longleftrightarrow> (case c of None \<Rightarrow> True | Some (t, _) \<Rightarrow> \<not> now < t + ttl)"

section \<open>An instance of the library parameter, and tables for worked examples\<close>

text \<open>
  The examples below are evaluated with this instance: plain decimal text read as a
  number, positional decimal text for a floating value, and the case folding of the ASCII
  letters.  No example uses a pattern that reaches \<open>re_other\<close>.
\<close>

definition ascii_lower :: "nat \<Rightarrow> nat" where
  "ascii_lower c = (if 65 \<le> c \<and> c \<le> 90 then c + 32 else c)"

definition is_digit :: "nat \<Rightarrow> bool" where
  "is_digit c \<longleftrightarrow> 48 \<le> c \<and> c \<le> 57"

definition digits_val :: "pystr \<Rightarrow> nat" where
  "digits_val ds = foldl (\<lambda>a c. 10 * a + (c - 48)) 0 ds"

definition c_space :: "nat \<Rightarrow> bool" where
  "c_space c \<longleftrightarrow> c = 32 \<or> (9 \<le> c \<and> c \<le> 13)"

definition decimal_number :: "pystr \<Rightarrow> number option" where
  "decimal_number s =
     (let t = rev (dropWhile c_space (rev (dropWhile c_space s)));
          neg = (case t of [] \<Rightarrow> False | c # _ \<Rightarrow> c = 45);
          u = (case t of [] \<Rightarrow> [] | c # v \<Rightarrow> if c = 45 \<or> c = 43 then v else t);
          ip = takeWhile is_digit u;
          rest = dropWhile is_digit u
      in case rest of
           [] \<Rightarrow> if ip = [] then None
                 else Some (IntNum ((if neg then - 1 else 1) * int (digits_val ip)))
         | c # fp \<Rightarrow>
             if c = 46 \<and> list_all is_digit fp \<and> (ip \<noteq> [] \<or> fp \<noteq> [])
             then Some (FloatNum ((if neg then - 1 else 1) *
                    (of_nat (digits_val ip) + of_nat (digits_val fp) / 10 ^ length fp)))
             else None)"

fun frac_digits :: "nat \<Rightarrow> rat \<Rightarrow> pystr" where
  "frac_digits 0 q = []"
| "frac_digits (Suc n) q =
     (if q = 0 then []
      else (48 + nat \<lfloor>q * 10\<rfloor>) # frac_digits n (q * 10 - of_int \<lfloor>q * 10\<rfloor>))"

definition positional :: "rat \<Rightarrow> pystr" where
  "positional q =
     (if q < 0 then [45] else []) @ nat_str (nat \<lfloor>\<bar>q\<bar>\<rfloor>) @ [46] @
     (if \<bar>q\<bar> = of_int \<lfloor>\<bar>q\<bar>\<rfloor> then [48] else frac_digits 17 (\<bar>q\<bar> - of_int \<lfloor>\<bar>q\<bar>\<rfloor>))"

definition ascii_lib :: lib where
  "ascii_lib = \<lparr>to_number = decimal_number, float_str = positional,
                 ieq = (\<lambda>t p. ascii_lower t = ascii_lower p),
                 re_other = (\<lambda>p. Inl (OtherError (lit ''error'')))\<rparr>"

definition no_criteria :: criteria where
  "no_criteria = \<lparr>selected_country = [], selected_hs_code = [], selected_item = [],
                   selected_year = []\<rparr>"

definition table_A :: dataframe where
  "table_A = \<lparr>columns = [COUNTRY, IMPORT, EXPORT],
              rows = [[Text (lit ''Japan''), I64 10, I64 5],
                      [Text (lit ''japan''), I64 0, I64 20],
                      [Text (lit ''Laos''), I64 7, I64 7]]\<rparr>"

definition table_no_country :: dataframe where
  "table_no_country = \<lparr>columns = [HS_CODE, IMPORT], rows = [[Text (lit ''0101''), I64 5]]\<rparr>"

definition table_abc :: dataframe where
  "table_abc = \<lparr>columns = [COUNTRY], rows = [[Text (lit ''abc'')]]\<rparr>"

definition criteria_jap :: criteria where
  "criteria_jap = no_criteria\<lparr>selected_country := lit '' JAP ''\<rparr>"

definition table_S :: dataframe where
  "table_S = \<lparr>columns = [COUNTRY, IMPORT, EXPORT],
              rows = [[Text (lit ''B''), I64 7, I64 7],
                      [Text (lit ''A''), I64 10, I64 5],
                      [Text (lit ''A''), I64 0, I64 20]]\<rparr>"


definition env_not_found :: env where
  "env_not_found =
     \<lparr>secrets_get = Inr True, service_account = Inr (),
      import_oauth2client = Inr (), from_json_keyfile_name = Inl FileNotFoundError,
      authorize = Inr (), open_by_id = Inl SpreadsheetNotFound, worksheet = Inr (),
      get_all_values = Inr []\<rparr>"

definition sheet_header :: "pystr list" where
  "sheet_header = [COUNTRY, IMPORT]"

definition sheet_body :: "pystr list list" where
  "sheet_body = [[lit ''Japan'', lit '' 12.5 ''], [lit ''Laos'', lit ''n/a'']]"

definition env_good :: env where
  "env_good =
     \<lparr>secrets_get = Inr True, service_account = Inr (),
      import_oauth2client = Inr (), from_json_keyfile_name = Inr (),
      authorize = Inr (), open_by_id = Inr (), worksheet = Inr (),
      get_all_values = Inr (sheet_header # sheet_body)\<rparr>"

section \<open>Properties of the filter stage\<close>

lemma zip_map_filter: "map fst (filter snd (zip xs (map h xs))) = filter h xs"
  by (induction xs) auto

lemma filter_and: "filter P (filter Q xs) = filter (\<lambda>x. Q x \<and> P x) xs"
  by (induction xs) auto

lemma strip_Nil [simp]: "strip [] = []"
  by (simp add: strip_def)

text \<open>
  C8.  With no criterion supplied the filter stage returns a table equal to its input, held
  by a new object: the result reference differs from the source reference, and writing to
  either object leaves the other as it was.
\<close>

theorem filtered_df_no_criteria:
  assumes "df < length s"
    and "selected_country c = []" and "selected_hs_code c = []"
    and "selected_item c = []" and "selected_year c = []"
  shows "\<exists>r' s'. filtered_df L c df s = Inr (r', s') \<and> r' < length s' \<and>
           s' ! r' = s ! df \<and> r' \<noteq> df \<and> s' ! df = s ! df \<and>
           (\<forall>d. s'[r' := d] ! df = s ! df) \<and> (\<forall>d. s'[df := d] ! r' = s ! df)"
proof -
  have "filtered_df L c df s = Inr (length s, s @ [s ! df])"
    using assms by (simp add: filtered_df_def then_do_def filter_by_def copy_def new_object_def)
  moreover have "length s \<noteq> df" using assms(1) by simp
  moreover have "(s @ [s ! df]) ! df = s ! df" using assms(1) by (simp add: nth_append)
  moreover have "\<forall>d. (s @ [s ! df])[length s := d] ! df = s ! df"
    using assms(1) by (simp add: nth_append)
  moreover have "\<forall>d. (s @ [s ! df])[df := d] ! length s = s ! df"
    using assms(1) by (simp add: list_update_append nth_append)
  ultimately show ?thesis by simp
qed

theorem filtered_df_no_criteria_witness:
  "(0::nat) < length [table_A] \<and> selected_country no_criteria = [] \<and>
   selected_hs_code no_criteria = [] \<and> selected_item no_criteria = [] \<and>
   selected_year no_criteria = [] \<and>
   (\<exists>r' s'. filtered_df ascii_lib no_criteria 0 [table_A] = Inr (r', s') \<and> r' < length s' \<and>
      s' ! r' = [table_A] ! 0 \<and> r' \<noteq> 0 \<and> s' ! 0 = [table_A] ! 0 \<and>
      (\<forall>d. s'[r' := d] ! 0 = [table_A] ! 0) \<and> (\<forall>d. s'[0 := d] ! r' = [table_A] ! 0))"
  using filtered_df_no_criteria [of 0 "[table_A]" no_criteria ascii_lib]
  by (simp add: no_criteria_def)

lemma match_here_lits:
  "match_here L (map Lit p) s \<longleftrightarrow>
     length p \<le> length s \<and> list_all2 (ieq L) (take (length p) s) p"
proof (induction p arbitrary: s)
  case Nil
  then show ?case by simp
next
  case (Cons c p)
  then show ?case by (cases s) auto
qed

lemma search_drop: "search L as s \<longleftrightarrow> (\<exists>i\<le>length s. match_here L as (drop i s))"
proof (induction s)
  case Nil
  then show ?case by simp
next
  case (Cons t ts)
  have "(\<exists>i\<le>length (t # ts). match_here L as (drop i (t # ts))) \<longleftrightarrow>
        match_here L as (t # ts) \<or> (\<exists>i\<le>length ts. match_here L as (drop i ts))"
  proof
    assume "\<exists>i\<le>length (t # ts). match_here L as (drop i (t # ts))"
    then obtain i where i: "i \<le> length (t # ts)" "match_here L as (drop i (t # ts))" by blast
    show "match_here L as (t # ts) \<or> (\<exists>i\<le>length ts. match_here L as (drop i ts))"
    proof (cases i)
      case 0
      with i show ?thesis by simp
    next
      case (Suc k)
      with i have "k \<le> length ts" "match_here L as (drop k ts)" by simp_all
      then show ?thesis by blast
    qed
  next
    assume "match_here L as (t # ts) \<or> (\<exists>i\<le>length ts. match_here L as (drop i ts))"
    then show "\<exists>i\<le>length (t # ts). match_here L as (drop i (t # ts))"
    proof
      assume "match_here L as (t # ts)"
      then have "match_here L as (drop 0 (t # ts))" by simp
      then show ?thesis by blast
    next
      assume "\<exists>i\<le>length ts. match_here L as (drop i ts)"
      then obtain k where "k \<le> length ts" "match_here L as (drop k ts)" by blast
      then have "Suc k \<le> length (t # ts)" "match_here L as (drop (Suc k) (t # ts))" by simp_all
      then show ?thesis by blast
    qed
  qed
  with Cons show ?case by simp
qed

lemma atoms_plain: "plain p \<Longrightarrow> atoms p = map Lit p"
  by (induction p) (auto simp: plain_def atoms_def re_special_def)

lemma plain_in_fragment: "plain p \<Longrightarrow> in_fragment p"
  by (induction p) (auto simp: plain_def in_fragment_def)

lemma list_ex_upto: "list_ex P [0..<Suc n] \<longleftrightarrow> (\<exists>i\<le>n. P i)"
  unfolding list_ex_iff set_upt by (auto simp: less_Suc_eq_le)

lemma search_plain: "plain p \<Longrightarrow> search L (atoms p) s = contains_ci L s p"
  unfolding contains_ci_def list_ex_upto
  by (auto simp: atoms_plain search_drop match_here_lits)

lemma contains_ci_Nil [simp]: "contains_ci L text []"
  unfolding contains_ci_def list_ex_upto by auto

lemma col_positions_rows [simp]: "col_positions (df\<lparr>rows := rs\<rparr>) c = col_positions df c"
  by (simp add: col_positions_def)

lemma criterion_ok_rows [simp]:
  "criterion_ok L (df\<lparr>rows := rs\<rparr>) col sel = criterion_ok L df col sel"
  by (simp add: criterion_ok_def fun_eq_iff)

lemma usable_rows [simp]: "usable (df\<lparr>rows := rs\<rparr>) col sel = usable df col sel"
  by (simp add: usable_def)

lemma filter_by_step:
  assumes "r < length s" and "usable (s ! r) col sel"
  shows "\<exists>r' s'. filter_by L col sel (r, s) = Inr (r', s') \<and> r' < length s' \<and>
           s' ! r' = (s ! r)\<lparr>rows := filter (criterion_ok L (s ! r) col sel) (rows (s ! r))\<rparr>"
proof (cases "sel = []")
  case True
  then show ?thesis using assms by (simp add: filter_by_def criterion_ok_def)
next
  case False
  with assms(2) have p: "plain (strip sel)" and "length (col_positions (s ! r) col) = 1"
    by (simp_all add: usable_def)
  then obtain j where j: "col_positions (s ! r) col = [j]"
    by (cases "col_positions (s ! r) col") auto
  have ok: "criterion_ok L (s ! r) col sel =
              (\<lambda>row. contains_ci L (astype_str L (row ! j)) (strip sel))"
    by (auto simp: criterion_ok_def j fun_eq_iff)
  have "filter_by L col sel (r, s) =
          Inr (length s, s @ [(s ! r)\<lparr>rows := filter (criterion_ok L (s ! r) col sel) (rows (s ! r))\<rparr>])"
    using False p
    by (simp add: filter_by_def getitem_def j str_contains_def re_compile_def plain_in_fragment
        search_plain new_object_def boolean_index_def ok comp_def
        zip_map_filter [where h = "\<lambda>row. contains_ci L (astype_str L (row ! j)) (strip sel)", symmetric])
  then show ?thesis by simp
qed

text \<open>
  C7, as the code has it.  When every non-empty criterion has a plain trimmed pattern (no
  character of the regular-expression syntax) and its target column occurs once in the
  table, the filter stage returns a new table that keeps exactly the records for which
  every criterion holds, a criterion holding when the text of the target column contains
  the trimmed pattern case-insensitively; the surviving records keep their relative order.
\<close>

theorem filtered_df_plain:
  assumes "df < length s"
    and "usable (s ! df) COUNTRY (selected_country c)"
    and "usable (s ! df) HS_CODE (selected_hs_code c)"
    and "usable (s ! df) ITEM (selected_item c)"
    and "usable (s ! df) YEAR (selected_year c)"
  shows "\<exists>r' s'. filtered_df L c df s = Inr (r', s') \<and> r' < length s' \<and>
            s' ! r' = filter_spec L c (s ! df) \<and>
            subseq (rows (s' ! r')) (rows (s ! df))"
proof -
  let ?T = "s ! df"
  let ?s0 = "s @ [?T]"
  have c0: "copy df s = (length s, ?s0)"
    by (simp add: copy_def new_object_def)
  from filter_by_step [of "length s" ?s0 COUNTRY "selected_country c" L] assms(2)
  obtain r1 s1 where 1: "filter_by L COUNTRY (selected_country c) (length s, ?s0) = Inr (r1, s1)"
    "r1 < length s1"
    "s1 ! r1 = ?T\<lparr>rows := filter (criterion_ok L ?T COUNTRY (selected_country c)) (rows ?T)\<rparr>"
    by auto
  have u1: "usable (s1 ! r1) HS_CODE (selected_hs_code c)"
    using assms(3) by (simp add: 1(3))
  from filter_by_step [OF 1(2) u1, of L]
  obtain r2 s2 where 2: "filter_by L HS_CODE (selected_hs_code c) (r1, s1) = Inr (r2, s2)"
    "r2 < length s2"
    "s2 ! r2 = (s1 ! r1)\<lparr>rows := filter (criterion_ok L (s1 ! r1) HS_CODE (selected_hs_code c))
                                    (rows (s1 ! r1))\<rparr>"
    by auto
  have u2: "usable (s2 ! r2) ITEM (selected_item c)"
    using assms(4) by (simp add: 2(3) 1(3))
  from filter_by_step [OF 2(2) u2, of L]
  obtain r3 s3 where 3: "filter_by L ITEM (selected_item c) (r2, s2) = Inr (r3, s3)"
    "r3 < length s3"
    "s3 ! r3 = (s2 ! r2)\<lparr>rows := filter (criterion_ok L (s2 ! r2) ITEM (selected_item c))
                                    (rows (s2 ! r2))\<rparr>"
    by auto
  have u3: "usable (s3 ! r3) YEAR (selected_year c)"
    using assms(5) by (simp add: 3(3) 2(3) 1(3))
  from filter_by_step [OF 3(2) u3, of L]
  obtain r4 s4 where 4: "filter_by L YEAR (selected_year c) (r3, s3) = Inr (r4, s4)"
    "r4 < length s4"
    "s4 ! r4 = (s3 ! r3)\<lparr>rows := filter (criterion_ok L (s3 ! r3) YEAR (selected_year c))
                                    (rows (s3 ! r3))\<rparr>"
    by auto
  have run: "filtered_df L c df s = Inr (r4, s4)"
    by (simp add: filtered_df_def then_do_def c0 1(1) 2(1) 3(1) 4(1))
  have eq: "s4 ! r4 = filter_spec L c ?T"
    by (simp add: 4(3) 3(3) 2(3) 1(3) filter_spec_def filter_and conj_assoc)
  have "subseq (rows (filter_spec L c ?T)) (rows ?T)"
    by (simp add: filter_spec_def)
  with run 4(2) eq show ?thesis by auto
qed

lemma strip_jap: "strip (lit '' JAP '') = lit ''JAP''"
  by (simp add: strip_def lit_def isspace_def)

lemma plain_jap: "plain (lit ''JAP'')"
  by (simp add: plain_def lit_def re_special_def)

lemma col_positions_A: "col_positions table_A COUNTRY = [0]"
  by (simp add: col_positions_def table_A_def COUNTRY_def IMPORT_def EXPORT_def upt_rec)

theorem filtered_df_plain_witness:
  "(0::nat) < length [table_A] \<and>
   usable ([table_A] ! 0) COUNTRY (selected_country criteria_jap) \<and>
   usable ([table_A] ! 0) HS_CODE (selected_hs_code criteria_jap) \<and>
   usable ([table_A] ! 0) ITEM (selected_item criteria_jap) \<and>
   usable ([table_A] ! 0) YEAR (selected_year criteria_jap) \<and>
   (\<exists>r' s'. filtered_df ascii_lib criteria_jap 0 [table_A] = Inr (r', s') \<and> r' < length s' \<and>
      s' ! r' = filter_spec ascii_lib criteria_jap ([table_A] ! 0) \<and>
      subseq (rows (s' ! r')) (rows ([table_A] ! 0)))"
proof -
  have u: "usable ([table_A] ! 0) COUNTRY (selected_country criteria_jap)"
    "usable ([table_A] ! 0) HS_CODE (selected_hs_code criteria_jap)"
    "usable ([table_A] ! 0) ITEM (selected_item criteria_jap)"
    "usable ([table_A] ! 0) YEAR (selected_year criteria_jap)"
    by (simp_all add: usable_def criteria_jap_def no_criteria_def strip_jap plain_jap
        col_positions_A)
  have l: "(0::nat) < length [table_A]" by simp
  from filtered_df_plain [OF l u, of ascii_lib] l u show ?thesis by blast
qed

text \<open>
  C2.  The filter lines index their target column without testing that the table has it
  (the loader, the chart helpers and the yearly trend do test, lines 68, 144, 155 and 181).
  On a table without the country column, a country criterion raises KeyError.
\<close>

theorem filtered_df_missing_column:
  "filtered_df ascii_lib (no_criteria\<lparr>selected_country := lit ''th''\<rparr>) 0 [table_no_country]
     = Inl (KeyError COUNTRY)"
  by (simp add: filtered_df_def then_do_def filter_by_def copy_def new_object_def no_criteria_def
      lit_def table_no_country_def getitem_def col_positions_def COUNTRY_def HS_CODE_def IMPORT_def)

text \<open>
  C7 as stated does not hold: the pattern is a regular expression.  The pattern \<open>.\<close>
  keeps the record \<open>abc\<close>, whose text does not contain a full stop.
\<close>

theorem filter_regex_counterexample:
  "filtered_df ascii_lib (no_criteria\<lparr>selected_country := lit ''.''\<rparr>) 0 [table_abc]
     = Inr (2, [table_abc, table_abc, table_abc]) \<and>
   filter_spec ascii_lib (no_criteria\<lparr>selected_country := lit ''.''\<rparr>) table_abc
     = table_abc\<lparr>rows := []\<rparr>"
  by (simp add: filtered_df_def then_do_def filter_by_def copy_def new_object_def no_criteria_def
      lit_def table_abc_def getitem_def col_positions_def str_contains_def re_compile_def
      in_fragment_def re_special_def atoms_def boolean_index_def strip_def isspace_def
      filter_spec_def criterion_ok_def contains_ci_def ascii_lib_def ascii_lower_def)

section \<open>Properties of the aggregation stage\<close>








lemma set_group_keys [simp]: "set (group_keys xs) = set xs"
  by (simp add: group_keys_def)

lemma distinct_group_keys [simp]: "distinct (group_keys xs)"
  by (simp add: group_keys_def)





lemma sorted_wrt_loc:
  assumes "set idx \<subseteq> {0..<length rs}" and "sorted_wrt (\<lambda>i j. f (rs ! j) \<le> (f (rs ! i) :: rat)) idx"
  shows "sorted_wrt (\<lambda>a b. f b \<le> f a) (map (\<lambda>i. rs ! i) idx)"
  using assms by (simp add: sorted_wrt_map)



lemma groupby_sum_one:
  assumes "col_positions df g = [gj]" and "col_positions df m = [mj]" and "g \<noteq> m"
    and "numeric_at df mj"
  shows "groupby_sum df g [m] =
           Inr \<lparr>columns = [g, m],
                 rows = map (\<lambda>k. [k, group_total df gj mj k])
                          (group_keys (map (\<lambda>r. r ! gj) (rows df)))\<rparr>"
  using assms by (simp add: groupby_sum_def list_ex_iff numeric_at_def list_all_iff)

lemma groupby_sum_two:
  assumes "col_positions df g = [gj]" and "col_positions df IMPORT = [ij]"
    and "col_positions df EXPORT = [ej]" and "g \<noteq> IMPORT" and "g \<noteq> EXPORT"
    and "numeric_at df ij" and "numeric_at df ej"
  shows "groupby_sum df g [IMPORT, EXPORT] =
           Inr \<lparr>columns = [g, IMPORT, EXPORT],
                 rows = map (\<lambda>k. [k, group_total df gj ij k, group_total df gj ej k])
                          (group_keys (map (\<lambda>r. r ! gj) (rows df)))\<rparr>"
  using assms by (auto simp: groupby_sum_def list_ex_iff numeric_at_def list_all_iff)


lemma names_distinct:
  "IMPORT \<noteq> EXPORT" "BALANCE \<noteq> IMPORT" "BALANCE \<noteq> EXPORT" "COUNTRY \<noteq> IMPORT"
  "COUNTRY \<noteq> EXPORT" "COUNTRY \<noteq> BALANCE"
  by (simp_all add: IMPORT_def EXPORT_def BALANCE_def COUNTRY_def)






lemma table_S_positions:
  "col_positions table_S COUNTRY = [0]" "col_positions table_S IMPORT = [1]"
  "col_positions table_S EXPORT = [2]"
  by (simp_all add: col_positions_def table_S_def upt_rec names_distinct
      names_distinct [symmetric])

lemma table_S_numeric: "numeric_at table_S 1" "numeric_at table_S 2"
  by (simp_all add: table_S_def numeric_at_def)




text \<open>The scenario of section 8 of the specification: groups A and B.\<close>

lemma scenario_grouped_sums:
  "create_trade_chart table_S COUNTRY =
     Inr (Go_bars [Text (lit ''A''), Text (lit ''B'')] [I64 10, I64 7] [I64 25, I64 7])"
proof -
  have keys: "group_keys (map (\<lambda>r. r ! 0) (rows table_S)) = [Text (lit ''A''), Text (lit ''B'')]"
    by (simp add: group_keys_def table_S_def lit_def)
  have tot: "group_total table_S 0 1 (Text (lit ''A'')) = I64 10"
    "group_total table_S 0 1 (Text (lit ''B'')) = I64 7"
    "group_total table_S 0 2 (Text (lit ''A'')) = I64 25"
    "group_total table_S 0 2 (Text (lit ''B'')) = I64 7"
    by (simp_all add: group_total_def table_S_def sum_cells_def lit_def)
  have "groupby_sum table_S COUNTRY [IMPORT, EXPORT] =
          Inr \<lparr>columns = [COUNTRY, IMPORT, EXPORT],
                rows = [[Text (lit ''A''), I64 10, I64 25], [Text (lit ''B''), I64 7, I64 7]]\<rparr>"
    by (simp add: groupby_sum_two [OF table_S_positions names_distinct(4,5) table_S_numeric]
        keys tot tot [unfolded One_nat_def])
  then show ?thesis
    by (simp add: create_trade_chart_def getitem_def col_positions_def names_distinct
        names_distinct [symmetric])
qed

lemma scenario_top_n:
  "create_top_n_chart table_S COUNTRY IMPORT 1 =
     ([], Inr (Px_bar \<lparr>columns = [COUNTRY, IMPORT], rows = [[Text (lit ''A''), I64 10]]\<rparr>
                 COUNTRY IMPORT))"
proof -
  have keys: "group_keys (map (\<lambda>r. r ! 0) (rows table_S)) = [Text (lit ''A''), Text (lit ''B'')]"
    by (simp add: group_keys_def table_S_def lit_def)
  have tot: "group_total table_S 0 1 (Text (lit ''A'')) = I64 10"
    "group_total table_S 0 1 (Text (lit ''B'')) = I64 7"
    by (simp_all add: group_total_def table_S_def sum_cells_def lit_def)
  have "groupby_sum table_S COUNTRY [IMPORT] =
          Inr \<lparr>columns = [COUNTRY, IMPORT],
                rows = [[Text (lit ''A''), I64 10], [Text (lit ''B''), I64 7]]\<rparr>"
    by (simp add: groupby_sum_one [OF table_S_positions(1,2) names_distinct(4) table_S_numeric(1)]
        keys tot tot [unfolded One_nat_def])
  moreover have "COUNTRY \<in> set (columns table_S)"
    by (simp add: table_S_def)
  ultimately show ?thesis
    by (simp add: create_top_n_chart_def getitem_def col_positions_def names_distinct
        names_distinct [symmetric] nlargest_def loc_def)
qed

lemma scenario_balance:
  "create_balance_chart table_S COUNTRY 1 =
     ([], Inr (Px_bar \<lparr>columns = [COUNTRY, IMPORT, EXPORT, BALANCE],
                       rows = [[Text (lit ''A''), I64 10, I64 25, I64 15]]\<rparr>
                 COUNTRY BALANCE))"
proof -
  have keys: "group_keys (map (\<lambda>r. r ! 0) (rows table_S)) = [Text (lit ''A''), Text (lit ''B'')]"
    by (simp add: group_keys_def table_S_def lit_def)
  have tot: "group_total table_S 0 1 (Text (lit ''A'')) = I64 10"
    "group_total table_S 0 1 (Text (lit ''B'')) = I64 7"
    "group_total table_S 0 2 (Text (lit ''A'')) = I64 25"
    "group_total table_S 0 2 (Text (lit ''B'')) = I64 7"
    by (simp_all add: group_total_def table_S_def sum_cells_def lit_def)
  have "groupby_sum table_S COUNTRY [IMPORT, EXPORT] =
          Inr \<lparr>columns = [COUNTRY, IMPORT, EXPORT],
                rows = [[Text (lit ''A''), I64 10, I64 25], [Text (lit ''B''), I64 7, I64 7]]\<rparr>"
    by (simp add: groupby_sum_two [OF table_S_positions names_distinct(4,5) table_S_numeric]
        keys tot tot [unfolded One_nat_def])
  moreover have "COUNTRY \<in> set (columns table_S)"
    by (simp add: table_S_def)
  ultimately show ?thesis
    by (simp add: create_balance_chart_def getitem_def col_positions_def names_distinct
        names_distinct [symmetric] nlargest_def loc_def setitem_def cell_sub_def)
qed

section \<open>Properties of the loader and of its cache\<close>

lemma DataFrame_error: "DataFrame body header = Inl e \<Longrightarrow> is_Exception e"
  by (auto simp: DataFrame_def split: if_splits)

lemma coerce_cols_error: "coerce_cols L cols df = Inl e \<Longrightarrow> is_Exception e"
  by (induction cols arbitrary: df) (auto split: if_splits selection.splits)

lemma load_frame_error: "load_frame L data = Inl e \<Longrightarrow> is_Exception e"
  by (auto simp: load_frame_def then_do_def split: list.splits sum.splits
      dest: DataFrame_error coerce_cols_error)

lemma shows_error_append [simp]:
  "shows_error (xs @ ys) \<longleftrightarrow> shows_error xs \<or> shows_error ys"
  by (simp add: shows_error_def)

lemma shows_error_handler:
  "is_Exception e \<Longrightarrow> \<exists>shown. handler e = (shown, Inr DataFrame0) \<and> shows_error shown"
  by (simp add: handler_def shows_error_def)

lemma fetch_cases:
  "(\<exists>e. fetch L env seen = (seen, Inl e) \<and>
        (open_by_id env = Inl e \<or> worksheet env = Inl e \<or> get_all_values env = Inl e \<or>
         (\<exists>data. get_all_values env = Inr data \<and> load_frame L data = Inl e))) \<or>
   (\<exists>data df. \<not> isl (open_by_id env) \<and> \<not> isl (worksheet env) \<and>
        get_all_values env = Inr data \<and> load_frame L data = Inr df \<and>
        fetch L env seen = (seen @ [St_success Load_success], Inr df))"
  by (auto simp: fetch_def split: sum.splits)

lemma no_base_exception_Inl: "no_base_exception x \<Longrightarrow> x = Inl e \<Longrightarrow> is_Exception e"
  by auto

lemma fetch_fails:
  assumes "only_errors env"
    and "\<not> (\<not> isl (open_by_id env) \<and> \<not> isl (worksheet env) \<and>
            (case get_all_values env of Inl _ \<Rightarrow> False | Inr data \<Rightarrow> \<not> isl (load_frame L data)))"
  shows "\<exists>e. fetch L env seen = (seen, Inl e) \<and> is_Exception e"
  using assms
  by (auto simp: fetch_def only_errors_def split: sum.splits dest: load_frame_error)

lemma try_body_fails:
  assumes "only_errors env" and "\<not> load_ok L env"
  shows "(\<exists>seen e. try_body L env = (seen, Inl e) \<and> is_Exception e) \<or>
         (\<exists>seen. try_body L env = (seen, Inr DataFrame0) \<and> shows_error seen)"
proof (cases "secrets_get env")
  case (Inl e)
  with assms(1) have "is_Exception e" by (simp add: only_errors_def)
  with Inl show ?thesis by (simp add: try_body_def)
next
  case (Inr found)
  show ?thesis
  proof (cases found)
    case True
    show ?thesis
    proof (cases "service_account env")
      case (Inl e)
      with assms(1) have "is_Exception e" by (simp add: only_errors_def)
      with Inl Inr True show ?thesis by (simp add: try_body_def shows_error_def)
    next
      case (Inr u)
      with \<open>secrets_get env = Inr found\<close> True assms(2)
      have "\<not> (\<not> isl (open_by_id env) \<and> \<not> isl (worksheet env) \<and>
            (case get_all_values env of Inl _ \<Rightarrow> False | Inr data \<Rightarrow> \<not> isl (load_frame L data)))"
        by (auto simp: load_ok_def source_ok_def client_ok_def split: sum.splits)
      from fetch_fails [OF assms(1) this,
          of "[St_write Debug_found_secret, St_write Debug_client_created]"]
      obtain e where "fetch L env [St_write Debug_found_secret, St_write Debug_client_created]
                        = ([St_write Debug_found_secret, St_write Debug_client_created], Inl e)"
        and "is_Exception e" by blast
      with Inr \<open>secrets_get env = Inr found\<close> True
      show ?thesis by (simp add: try_body_def)
    qed
  next
    case False
    show ?thesis
    proof (cases "\<not> isl (import_oauth2client env) \<and> \<not> isl (from_json_keyfile_name env) \<and>
                   \<not> isl (authorize env)")
      case True
      with Inr False assms(2)
      have "\<not> (\<not> isl (open_by_id env) \<and> \<not> isl (worksheet env) \<and>
            (case get_all_values env of Inl _ \<Rightarrow> False | Inr data \<Rightarrow> \<not> isl (load_frame L data)))"
        by (auto simp: load_ok_def source_ok_def client_ok_def split: sum.splits)
      from fetch_fails [OF assms(1) this, of "[St_write Debug_fallback]"]
      obtain e where "fetch L env [St_write Debug_fallback] = ([St_write Debug_fallback], Inl e)"
        and "is_Exception e" by blast
      with Inr False True
      show ?thesis by (auto simp: try_body_def split: sum.splits)
    next
      case nok: False
      with Inr False assms(1) show ?thesis
        by (auto simp: try_body_def only_errors_def split: sum.splits)
    qed
  qed
qed

lemma get_data_fails:
  assumes "only_errors env" and "\<not> load_ok L env"
  shows "\<exists>seen. get_data_from_sheet L env = (seen, Inr DataFrame0) \<and> shows_error seen"
  using try_body_fails [OF assms]
proof
  assume "\<exists>seen e. try_body L env = (seen, Inl e) \<and> is_Exception e"
  then obtain seen e where t: "try_body L env = (seen, Inl e)" and e: "is_Exception e" by blast
  from shows_error_handler [OF e] obtain shown
    where "handler e = (shown, Inr DataFrame0)" "shows_error shown" by blast
  with t show ?thesis by (simp add: get_data_from_sheet_def)
next
  assume "\<exists>seen. try_body L env = (seen, Inr DataFrame0) \<and> shows_error seen"
  then show ?thesis by (auto simp: get_data_from_sheet_def)
qed

lemma page_body_empty: "page_body L DataFrame0 a crit = ([St_info Cannot_load], Inr ())"
  by (simp add: page_body_def df_empty_def DataFrame0_def)

text \<open>
  C1.  When the outside calls raise nothing but exceptions derived from \<open>Exception\<close>, and
  some call on the path of the loader fails or the table cannot be built from the rows,
  the loader returns the empty table (no rows, no columns) after showing an error message,
  and raises nothing; the page then shows that no data could be loaded and nothing else.
\<close>

theorem get_data_from_sheet_absorbs_failure:
  assumes "only_errors env" and "\<not> load_ok L env"
  shows "\<exists>seen. get_data_from_sheet L env = (seen, Inr DataFrame0) \<and> shows_error seen \<and>
           DataFrame0 = \<lparr>columns = [], rows = []\<rparr> \<and>
           fst (page L env now None a crit) = (seen @ [St_info Cannot_load], Inr ())"
proof -
  from get_data_fails [OF assms] obtain seen
    where g: "get_data_from_sheet L env = (seen, Inr DataFrame0)" and s: "shows_error seen"
    by blast
  have "fst (page L env now None a crit) = (seen @ [St_info Cannot_load], Inr ())"
    by (simp add: page_def cached_get_data_def run_and_keep_def g and_then_def page_body_empty)
  with g s show ?thesis by (simp add: DataFrame0_def)
qed

text \<open>What the loader does when nothing fails.\<close>

lemma get_data_succeeds:
  assumes "load_ok L env"
  shows "\<exists>seen data df. get_all_values env = Inr data \<and> load_frame L data = Inr df \<and>
           get_data_from_sheet L env = (seen @ [St_success Load_success], Inr df)"
  using assms
  by (auto simp: load_ok_def source_ok_def client_ok_def get_data_from_sheet_def try_body_def
      fetch_def split: sum.splits if_splits)

theorem get_data_from_sheet_absorbs_failure_witness:
  "only_errors env_not_found \<and> \<not> load_ok ascii_lib env_not_found \<and>
   (\<exists>seen. get_data_from_sheet ascii_lib env_not_found = (seen, Inr DataFrame0) \<and>
      shows_error seen \<and> DataFrame0 = \<lparr>columns = [], rows = []\<rparr> \<and>
      fst (page ascii_lib env_not_found 0 None Overview no_criteria)
        = (seen @ [St_info Cannot_load], Inr ()))"
proof -
  have 1: "only_errors env_not_found"
    by (simp add: only_errors_def env_not_found_def)
  have 2: "\<not> load_ok ascii_lib env_not_found"
    by (simp add: load_ok_def source_ok_def env_not_found_def)
  from get_data_from_sheet_absorbs_failure [OF 1 2, of 0 Overview no_criteria] 1 2
  show ?thesis by blast
qed

lemma get_data_not_found:
  "get_data_from_sheet ascii_lib env_not_found =
     ([St_write Debug_found_secret, St_write Debug_client_created,
       St_error Sheet_not_found, St_info Check_ids], Inr DataFrame0)"
  by (simp add: get_data_from_sheet_def try_body_def fetch_def handler_def env_not_found_def)



lemma length_to_numeric_fillna [simp]: "length (to_numeric_fillna L xs) = length xs"
  by (simp add: to_numeric_fillna_def Let_def)













text \<open>The same sheet, evaluated: decimal text between blanks is read, other text becomes 0.\<close>

lemma sample_reads:
  "to_number ascii_lib (lit '' 12.5 '') = Some (FloatNum (25 / 2))"
  "to_number ascii_lib (lit ''n/a'') = None"
  by (simp_all add: ascii_lib_def decimal_number_def lit_def c_space_def is_digit_def
      digits_val_def)

lemma load_frame_sample:
  "load_frame ascii_lib (sheet_header # sheet_body) =
     Inr \<lparr>columns = [COUNTRY, IMPORT],
           rows = [[Text (lit ''Japan''), F64 (25 / 2)], [Text (lit ''Laos''), F64 0]]\<rparr>"
proof -
  have names: "IMPORT \<noteq> COUNTRY" "EXPORT \<noteq> COUNTRY" "EXPORT \<noteq> IMPORT" "YEAR \<noteq> COUNTRY"
    "YEAR \<noteq> IMPORT"
    by (simp_all add: IMPORT_def EXPORT_def YEAR_def COUNTRY_def)
  show ?thesis
    by (simp add: load_frame_def then_do_def DataFrame_def sheet_header_def sheet_body_def
        numeric_cols_def names names [symmetric] getitem_def col_positions_def setitem_def
        to_numeric_fillna_def sample_reads)
qed

lemma cached_hit:
  "t \<le> now \<Longrightarrow> now < t + ttl \<Longrightarrow>
     cached_get_data L env now (Some (t, seen, df)) = ((seen, Inr df), Some (t, seen, df))"
  by (simp add: cached_get_data_def)

lemma calls_hits:
  "list_all (\<lambda>(env, now). t \<le> now \<and> now < t + ttl) later \<Longrightarrow>
     calls L later (Some (t, seen, df)) =
       (replicate (length later) (seen, Inr df), Some (t, seen, df))"
  by (induction later) (auto simp: cached_hit)

text \<open>
  C10.  A load that fails returns the empty table, and the cache keeps it like any other
  value: every call in the 300 seconds after it returns the kept empty table and shows the
  kept messages, whatever the outside world would answer then, and leaves the cache as it
  is.
\<close>

theorem failed_load_is_cached:
  assumes "only_errors env" and "\<not> load_ok L env" and "is_miss c t"
    and "list_all (\<lambda>(env', now). t \<le> now \<and> now < t + 300) later"
  shows "\<exists>seen. cached_get_data L env t c = ((seen, Inr DataFrame0), Some (t, seen, DataFrame0)) \<and>
           shows_error seen \<and>
           calls L later (Some (t, seen, DataFrame0)) =
             (replicate (length later) (seen, Inr DataFrame0), Some (t, seen, DataFrame0))"
proof -
  from get_data_fails [OF assms(1,2)] obtain seen
    where g: "get_data_from_sheet L env = (seen, Inr DataFrame0)" and s: "shows_error seen"
    by blast
  have first: "cached_get_data L env t c = ((seen, Inr DataFrame0), Some (t, seen, DataFrame0))"
    using assms(3) g
    by (auto simp: cached_get_data_def is_miss_def run_and_keep_def split: option.splits)
  have "list_all (\<lambda>(env', now). t \<le> now \<and> now < t + ttl) later"
    using assms(4) by (simp add: ttl_def)
  from calls_hits [OF this] first s show ?thesis by blast
qed

theorem failed_load_is_cached_witness:
  "only_errors env_not_found \<and> \<not> load_ok ascii_lib env_not_found \<and> is_miss None 0 \<and>
   list_all (\<lambda>(env', now). 0 \<le> now \<and> now < 0 + 300)
     [(env_good, 100::real), (env_good, 299)] \<and>
   (\<exists>seen. cached_get_data ascii_lib env_not_found 0 None
              = ((seen, Inr DataFrame0), Some (0, seen, DataFrame0)) \<and>
      shows_error seen \<and>
      calls ascii_lib [(env_good, 100), (env_good, 299)] (Some (0, seen, DataFrame0)) =
        (replicate (length [(env_good, 100::real), (env_good, 299)]) (seen, Inr DataFrame0),
         Some (0, seen, DataFrame0)))"
proof -
  have 1: "only_errors env_not_found"
    by (simp add: only_errors_def env_not_found_def)
  have 2: "\<not> load_ok ascii_lib env_not_found"
    by (simp add: load_ok_def source_ok_def env_not_found_def)
  have 3: "is_miss None 0" by (simp add: is_miss_def)
  have 4: "list_all (\<lambda>(env', now). 0 \<le> now \<and> now < 0 + 300)
             [(env_good, 100::real), (env_good, 299)]"
    by simp
  from failed_load_is_cached [OF 1 2 3 4] 1 2 3 4 show ?thesis by blast
qed

text \<open>The world of the later calls would answer: an uncached call there loads the sheet.\<close>

lemma env_good_loads: "load_ok ascii_lib env_good"
  by (simp add: load_ok_def source_ok_def client_ok_def env_good_def load_frame_sample)

text \<open>Once the 300 seconds are over, the next call runs the loader again.\<close>

lemma cached_expired:
  "t + 300 \<le> now \<Longrightarrow>
     cached_get_data L env now (Some (t, seen, df)) = run_and_keep L env now (Some (t, seen, df))"
  by (simp add: cached_get_data_def ttl_def)

end
